theory Spec2Isabelle
  imports Complex_Main "HOL-Library.Word"
begin

section \<open>Data model\<close>

text \<open>
  The emotion labels of the two services. At run time both are plain strings, and
  \<open>combineEmotions\<close> compares and returns them as strings; the two functions below give
  the string of each label. A \<open>number\<close> is a real number; where the code computes with
  numbers, in the fusion and in the classifier, the rounding of each operation to a double
  is written out with \<open>fl\<close> of the next section. The signal metrics and the standard
  deviation inside the analysis loop are computed with exact reals.
\<close>

datatype Emotion = Happy | Sad | Angry | Fearful | Neutral | Surprised | Disgusted

datatype VoiceEmotion = VHappy | VSad | VAngry | VFearful | VNeutral

fun emotion_str :: "Emotion \<Rightarrow> string" where
  "emotion_str Happy = ''happy''"
| "emotion_str Sad = ''sad''"
| "emotion_str Angry = ''angry''"
| "emotion_str Fearful = ''fearful''"
| "emotion_str Neutral = ''neutral''"
| "emotion_str Surprised = ''surprised''"
| "emotion_str Disgusted = ''disgusted''"

fun voice_str :: "VoiceEmotion \<Rightarrow> string" where
  "voice_str VHappy = ''happy''"
| "voice_str VSad = ''sad''"
| "voice_str VAngry = ''angry''"
| "voice_str VFearful = ''fearful''"
| "voice_str VNeutral = ''neutral''"

record VoiceMetrics =
  pitch :: real
  pitchVariation :: real
  volume :: real
  volumeVariation :: real
  speechRate :: real
  energy :: real

record VoiceEmotionResult =
  emotion :: VoiceEmotion
  v_confidence :: real
  metrics :: VoiceMetrics
  v_timestamp :: nat

record EmotionResult =
  dominant :: Emotion
  f_confidence :: real
  all_scores :: "Emotion \<Rightarrow> real"
  f_timestamp :: nat

record TranscriptionResult =
  t_text :: string
  isFinal :: bool
  t_confidence :: real
  t_timestamp :: nat

record Combined =
  c_emotion :: string
  c_confidence :: real

section \<open>Double precision\<close>

text \<open>
  A \<open>number\<close> of the code is an IEEE 754 double, and every arithmetic operation rounds
  its exact result to the nearest double, ties to the even significand. \<open>fl x\<close> is the
  double nearest to \<open>x\<close>: 53 significant bits, the exponent range taken as unbounded (no
  overflow, no subnormal numbers, no NaN). A decimal literal of the source denotes the
  double nearest to it: \<open>0.55\<close> is \<open>fl (55 / 100)\<close>. \<open>ilog2 n\<close> is the position of the
  leading bit of a positive integer, \<open>exponent x\<close> the binary exponent of a positive real,
  \<open>ulp x\<close> the distance between the doubles around it.
\<close>

definition round_half_even :: "real \<Rightarrow> int" where
  "round_half_even q =
     (let f = \<lfloor>q\<rfloor>; r = q - of_int f
      in if r < 1 / 2 then f else if r > 1 / 2 then f + 1 else if even f then f else f + 1)"

function ilog2 :: "int \<Rightarrow> int" where
  "ilog2 n = (if n \<le> 1 then 0 else 1 + ilog2 (n div 2))"
  by pat_completeness auto
termination
  by (relation "measure nat") auto

declare ilog2.simps [simp del]

definition exponent :: "real \<Rightarrow> int" where
  "exponent x = (if x \<ge> 1 then ilog2 \<lfloor>x\<rfloor> else - (ilog2 (\<lceil>1 / x\<rceil> - 1) + 1))"

definition ulp :: "real \<Rightarrow> real" where
  "ulp x = (let e = exponent x in if e \<ge> 52 then 2 ^ nat (e - 52) else 1 / 2 ^ nat (52 - e))"

definition fl :: "real \<Rightarrow> real" where
  "fl x =
     (if x = 0 then 0
      else sgn x * of_int (round_half_even (\<bar>x\<bar> / ulp \<bar>x\<bar>)) * ulp \<bar>x\<bar>)"

section \<open>Fusion of the two estimates\<close>

text \<open>
  The two weights are the doubles written \<open>0.55\<close> and \<open>0.38\<close>; each product, the sum
  and the product with \<open>1.2\<close> are rounded. \<open>Math.min\<close> and the comparison are exact.
\<close>

definition facialWeight :: real where
  "facialWeight = fl (55 / 100)"

definition voiceWeight :: real where
  "voiceWeight = fl (38 / 100)"

fun combineEmotions :: "EmotionResult option \<Rightarrow> VoiceEmotionResult option \<Rightarrow> Combined option" where
  "combineEmotions None None = None"
| "combineEmotions None (Some voice) =
     Some \<lparr>c_emotion = voice_str (emotion voice), c_confidence = v_confidence voice\<rparr>"
| "combineEmotions (Some facial) None =
     Some \<lparr>c_emotion = emotion_str (dominant facial), c_confidence = f_confidence facial\<rparr>"
| "combineEmotions (Some facial) (Some voice) =
     (if emotion_str (dominant facial) = voice_str (emotion voice) then
        Some \<lparr>c_emotion = emotion_str (dominant facial),
              c_confidence =
                min 1 (fl (fl (fl (f_confidence facial * facialWeight)
                               + fl (v_confidence voice * voiceWeight))
                           * fl (12 / 10)))\<rparr>
      else
        let facialScore = fl (f_confidence facial * facialWeight);
            voiceScore = fl (v_confidence voice * voiceWeight)
        in if facialScore \<ge> voiceScore then
             Some \<lparr>c_emotion = emotion_str (dominant facial), c_confidence = facialScore\<rparr>
           else
             Some \<lparr>c_emotion = voice_str (emotion voice), c_confidence = voiceScore\<rparr>)"

section \<open>The heuristic emotion classifier\<close>

text \<open>
  \<open>detectEmotion\<close> keeps one score per label, applies four groups of additive rules in the
  order of the source and picks the label with the greatest score. The four groups are the
  four blocks of \<open>if\<close> statements of the source; \<open>Object.entries\<close> lists the scores in
  the order in which the object literal declares them.
\<close>

record Scores =
  happy :: real
  sad :: real
  angry :: real
  fearful :: real
  neutral :: real

text \<open>
  \<open>bump s d\<close> is \<open>s += d\<close> for a decimal literal \<open>d\<close>: the rounded sum of the score and
  the double that the literal denotes. The thresholds 0.7, 0.3 and 0.6 are doubles as well;
  the integer thresholds are exact.
\<close>

definition bump :: "real \<Rightarrow> real \<Rightarrow> real" where
  "bump s d = fl (s + fl d)"

definition initial_scores :: Scores where
  "initial_scores = \<lparr>happy = 0, sad = 0, angry = 0, fearful = 0, neutral = fl (3 / 10)\<rparr>"

definition score_pitch :: "VoiceMetrics \<Rightarrow> Scores \<Rightarrow> Scores" where
  "score_pitch m s0 =
     (let s1 = (if pitch m \<ge> 200 \<and> pitch m \<le> 400
                then s0\<lparr>happy := bump (happy s0) (3 / 10)\<rparr> else s0);
          s2 = (if pitch m \<ge> 150 \<and> pitch m \<le> 350 \<and> volume m > fl (7 / 10)
                then s1\<lparr>angry := bump (angry s1) (3 / 10)\<rparr> else s1);
          s3 = (if pitch m \<ge> 100 \<and> pitch m \<le> 200
                then s2\<lparr>sad := bump (sad s2) (3 / 10)\<rparr> else s2)
      in if pitch m \<ge> 180 \<and> pitch m \<le> 350
         then s3\<lparr>fearful := bump (fearful s3) (2 / 10)\<rparr> else s3)"

definition score_volume :: "VoiceMetrics \<Rightarrow> Scores \<Rightarrow> Scores" where
  "score_volume m s =
     (if volume m > fl (7 / 10)
      then s\<lparr>angry := bump (angry s) (2 / 10), happy := bump (happy s) (1 / 10)\<rparr>
      else if volume m < fl (3 / 10)
      then s\<lparr>sad := bump (sad s) (3 / 10), fearful := bump (fearful s) (1 / 10)\<rparr>
      else s)"

definition score_pitchVariation :: "VoiceMetrics \<Rightarrow> Scores \<Rightarrow> Scores" where
  "score_pitchVariation m s =
     (if pitchVariation m > 40
      then s\<lparr>angry := bump (angry s) (2 / 10), fearful := bump (fearful s) (2 / 10)\<rparr>
      else if pitchVariation m > 25 then s\<lparr>happy := bump (happy s) (2 / 10)\<rparr>
      else if pitchVariation m < 15
      then s\<lparr>sad := bump (sad s) (2 / 10), neutral := bump (neutral s) (1 / 10)\<rparr>
      else s)"

definition score_energy :: "VoiceMetrics \<Rightarrow> Scores \<Rightarrow> Scores" where
  "score_energy m s =
     (if energy m > fl (6 / 10)
      then s\<lparr>angry := bump (angry s) (2 / 10), happy := bump (happy s) (1 / 10)\<rparr>
      else if energy m < fl (3 / 10) then s\<lparr>sad := bump (sad s) (2 / 10)\<rparr>
      else s)"

definition entries :: "Scores \<Rightarrow> (VoiceEmotion \<times> real) list" where
  "entries s =
     [(VHappy, happy s), (VSad, sad s), (VAngry, angry s), (VFearful, fearful s),
      (VNeutral, neutral s)]"

fun pick_dominant :: "(VoiceEmotion \<times> real) list \<Rightarrow> VoiceEmotion \<times> real \<Rightarrow> VoiceEmotion \<times> real" where
  "pick_dominant [] (dominantEmotion, maxScore) = (dominantEmotion, maxScore)"
| "pick_dominant ((e, score) # rest) (dominantEmotion, maxScore) =
     (if score > maxScore then pick_dominant rest (e, score)
      else pick_dominant rest (dominantEmotion, maxScore))"

definition detectEmotion :: "VoiceMetrics \<Rightarrow> VoiceEmotion \<times> real" where
  "detectEmotion m =
     (let scores = score_energy m (score_pitchVariation m (score_volume m (score_pitch m initial_scores)));
          (dominantEmotion, maxScore) = pick_dominant (entries scores) (VNeutral, 0)
      in (dominantEmotion, min 1 maxScore))"

section \<open>Rolling variation\<close>

text \<open>\<open>calculateStdDev\<close> with exact arithmetic, as the analysis loop of the model uses it.\<close>

definition calculateStdDev :: "real list \<Rightarrow> real" where
  "calculateStdDev values =
     (if length values = 0 then 0
      else
        let mean = foldl (+) 0 values / real (length values);
            squareDiffs = map (\<lambda>value. (value - mean) ^ 2) values
        in sqrt (foldl (+) 0 squareDiffs / real (length values)))"

text \<open>
  The population standard deviation as the specification words it: the square root of the
  mean of the squared deviations from the mean of the window, and 0 for an empty window.
\<close>

definition population_stddev :: "real list \<Rightarrow> real" where
  "population_stddev xs =
     (if xs = [] then 0
      else sqrt ((\<Sum>x\<leftarrow>xs. (x - sum_list xs / real (length xs)) ^ 2) / real (length xs)))"

text \<open>
  One history update of the analysis loop: \<open>push\<close> the sample, then \<open>shift\<close> the oldest
  one out when the history has grown beyond 20 entries.
\<close>

definition push_capped :: "real \<Rightarrow> real list \<Rightarrow> real list" where
  "push_capped x history =
     (let pushed = history @ [x] in if length pushed > 20 then tl pushed else pushed)"

text \<open>
  \<open>calculateStdDev\<close> a second time, with the rounding of each operation written out: of
  each addition of \<open>reduce\<close>, of the two divisions, of the subtraction, of \<open>Math.pow\<close>
  with exponent 2 (taken as the rounded square) and of \<open>Math.sqrt\<close>.
\<close>

definition calculateStdDev_double :: "real list \<Rightarrow> real" where
  "calculateStdDev_double values =
     (if length values = 0 then 0
      else
        let mean = fl (foldl (\<lambda>a b. fl (a + b)) 0 values / real (length values));
            squareDiffs = map (\<lambda>value. fl (fl (value - mean) ^ 2)) values
        in fl (sqrt (fl (foldl (\<lambda>a b. fl (a + b)) 0 squareDiffs / real (length values)))))"

section \<open>The voice analysis service\<close>

text \<open>
  The state of a \<open>VoiceAnalysisService\<close> object. The browser objects are kept only as far
  as the service reads them: the audio context by its sample rate, the analyser node by its
  FFT size, the recognition object by its language. What the service does to the outside is
  recorded in the state as well: the timeouts it has set and not yet cleared or run
  (\<open>timers\<close>), the calls of \<open>start\<close> and \<open>stop\<close> on the recognition object
  (\<open>recognitionCalls\<close>), the calls of \<open>console.warn\<close> and \<open>console.error\<close>
  (\<open>console\<close>; \<open>console.log\<close> is left out), and the results handed to the two
  callbacks (\<open>emitted\<close>, \<open>transcribed\<close>).
\<close>

datatype TimerTask = AnalysisTick | RestartRecognition

record Timer =
  timerId :: nat
  timerDelay :: nat
  timerTask :: TimerTask

datatype LogLevel = Warn | Error

datatype RecognitionCall = RecStart | RecStop

datatype JsError = RecognitionStartFailed

record Recognition =
  continuous :: bool
  interimResults :: bool
  lang :: string

record VoiceAnalysisConfig =
  sampleRate :: real
  fftSize :: nat
  language :: string

record VoiceAnalysisService =
  audioContext :: "real option"
  analyser :: "nat option"
  mediaStreamSource :: bool
  recognition :: "Recognition option"
  svc_isListening :: bool
  isTranscribing :: bool
  analysisInterval :: "nat option"
  config :: VoiceAnalysisConfig
  onVoiceEmotionCallback :: bool
  onTranscriptionCallback :: bool
  pitchHistory :: "real list"
  volumeHistory :: "real list"
  timers :: "Timer list"
  nextTimerId :: nat
  recognitionCalls :: "RecognitionCall list"
  console :: "(LogLevel \<times> string) list"
  emitted :: "VoiceEmotionResult list"
  transcribed :: "TranscriptionResult list"

text \<open>
  The object after its constructor has run with a given configuration. Timer identifiers
  start at 1, as those of \<open>window.setTimeout\<close> do, so that a stored identifier is never
  falsy.
\<close>

definition new_service :: "VoiceAnalysisConfig \<Rightarrow> VoiceAnalysisService" where
  "new_service cfg =
     \<lparr>audioContext = None, analyser = None, mediaStreamSource = False, recognition = None,
      svc_isListening = False, isTranscribing = False, analysisInterval = None, config = cfg,
      onVoiceEmotionCallback = False, onTranscriptionCallback = False,
      pitchHistory = [], volumeHistory = [], timers = [], nextTimerId = 1,
      recognitionCalls = [], console = [], emitted = [], transcribed = []\<rparr>"

definition setTimeout :: "TimerTask \<Rightarrow> nat \<Rightarrow> VoiceAnalysisService \<Rightarrow> nat \<times> VoiceAnalysisService" where
  "setTimeout task delay s =
     (nextTimerId s,
      s\<lparr>timers := timers s @ [\<lparr>timerId = nextTimerId s, timerDelay = delay, timerTask = task\<rparr>],
        nextTimerId := Suc (nextTimerId s)\<rparr>)"

definition clearTimeout :: "nat \<Rightarrow> VoiceAnalysisService \<Rightarrow> VoiceAnalysisService" where
  "clearTimeout i s = s\<lparr>timers := filter (\<lambda>t. timerId t \<noteq> i) (timers s)\<rparr>"

definition console_log :: "LogLevel \<Rightarrow> string \<Rightarrow> VoiceAnalysisService \<Rightarrow> VoiceAnalysisService" where
  "console_log level msg s = s\<lparr>console := console s @ [(level, msg)]\<rparr>"

text \<open>
  A call of \<open>start\<close> on the recognition object. Whether the browser makes it throw is an
  input from the environment; the thrown error, if any, is the first component.
\<close>

definition recognition_start :: "bool \<Rightarrow> VoiceAnalysisService \<Rightarrow> JsError option \<times> VoiceAnalysisService" where
  "recognition_start throws s =
     (if throws then Some RecognitionStartFailed else None,
      s\<lparr>recognitionCalls := recognitionCalls s @ [RecStart]\<rparr>)"

definition recognition_stop :: "VoiceAnalysisService \<Rightarrow> VoiceAnalysisService" where
  "recognition_stop s = s\<lparr>recognitionCalls := recognitionCalls s @ [RecStop]\<rparr>"

subsection \<open>Signal metrics\<close>

text \<open>
  One read of the analyser: the frequency bytes and the time-domain bytes, both of length
  \<open>frequencyBinCount\<close>, hence a list of pairs. For an empty buffer the source divides 0
  by 0 and the energy is NaN, which fails the test \<open>energy > 0.1\<close> as the value 0 of the
  model does.
\<close>

type_synonym Frame = "(8 word \<times> 8 word) list"

definition frequencyData :: "Frame \<Rightarrow> 8 word list" where
  "frequencyData frame = map fst frame"

definition timeData :: "Frame \<Rightarrow> 8 word list" where
  "timeData frame = map snd frame"

definition correlation_at :: "real list \<Rightarrow> nat \<Rightarrow> real" where
  "correlation_at floatData lag =
     foldl (+) 0 (map (\<lambda>i. floatData ! i * floatData ! (i + lag)) [0..<length floatData - lag])"

fun best_lag :: "real list \<Rightarrow> nat list \<Rightarrow> real \<times> nat \<Rightarrow> real \<times> nat" where
  "best_lag floatData [] (maxCorrelation, bestLag) = (maxCorrelation, bestLag)"
| "best_lag floatData (lag # lags) (maxCorrelation, bestLag) =
     (if correlation_at floatData lag > maxCorrelation
      then best_lag floatData lags (correlation_at floatData lag, lag)
      else best_lag floatData lags (maxCorrelation, bestLag))"

definition detectPitch :: "real option \<Rightarrow> 8 word list \<Rightarrow> real" where
  "detectPitch ctx tdata =
     (let rate = (case ctx of None \<Rightarrow> 44100 | Some r \<Rightarrow> if r = 0 then 44100 else r);
          floatData = map (\<lambda>b. (real (unat b) - 128) / 128) tdata;
          minLag = nat \<lfloor>rate / 500\<rfloor>;
          maxLag = nat \<lfloor>rate / 50\<rfloor>;
          lags = takeWhile (\<lambda>lag. real lag < real (length floatData) / 2) [minLag..<maxLag];
          (maxCorrelation, bestLag) = best_lag floatData lags (0, 0)
      in if bestLag = 0 then 0 else rate / real bestLag)"

definition calculateRMS :: "8 word list \<Rightarrow> real" where
  "calculateRMS tdata =
     sqrt (foldl (+) 0 (map (\<lambda>b. ((real (unat b) - 128) / 128) * ((real (unat b) - 128) / 128)) tdata)
           / real (length tdata))"

definition calculateEnergy :: "8 word list \<Rightarrow> real" where
  "calculateEnergy fdata =
     foldl (+) 0 (map (\<lambda>b. real (unat b)) fdata) / (real (length fdata) * 255)"

definition analyzeAudio :: "Frame \<Rightarrow> VoiceAnalysisService \<Rightarrow> VoiceMetrics" where
  "analyzeAudio frame s =
     (if analyser s = None then
        \<lparr>pitch = 0, pitchVariation = 0, volume = 0, volumeVariation = 0, speechRate = 0, energy = 0\<rparr>
      else
        \<lparr>pitch = detectPitch (audioContext s) (timeData frame), pitchVariation = 0,
          volume = calculateRMS (timeData frame), volumeVariation = 0, speechRate = 0,
          energy = calculateEnergy (frequencyData frame)\<rparr>)"

subsection \<open>The analysis loop\<close>

text \<open>
  One run of \<open>runAnalysisLoop\<close>, on the frame the analyser holds and the clock's time at
  that moment.
\<close>

definition runAnalysisLoop :: "Frame \<Rightarrow> nat \<Rightarrow> VoiceAnalysisService \<Rightarrow> VoiceAnalysisService" where
  "runAnalysisLoop frame now s =
     (if \<not> svc_isListening s \<or> analyser s = None then s
      else
        let m = analyzeAudio frame s;
            s1 =
              (if energy m > 1 / 10 then
                 let ph = push_capped (pitch m) (pitchHistory s);
                     vh = push_capped (volume m) (volumeHistory s);
                     m' = m\<lparr>pitchVariation := calculateStdDev ph, volumeVariation := calculateStdDev vh\<rparr>;
                     (e, c) = detectEmotion m';
                     result = \<lparr>emotion = e, v_confidence = c, metrics = m', v_timestamp = now\<rparr>
                 in s\<lparr>pitchHistory := ph, volumeHistory := vh,
                      emitted := (if onVoiceEmotionCallback s then emitted s @ [result] else emitted s)\<rparr>
               else s);
            (i, s2) = setTimeout AnalysisTick 100 s1
        in s2\<lparr>analysisInterval := Some i\<rparr>)"

definition startListening :: "Frame \<Rightarrow> nat \<Rightarrow> VoiceAnalysisService \<Rightarrow> VoiceAnalysisService" where
  "startListening frame now s =
     (if svc_isListening s then s
      else runAnalysisLoop frame now (s\<lparr>svc_isListening := True, pitchHistory := [], volumeHistory := []\<rparr>))"

definition stopListening :: "VoiceAnalysisService \<Rightarrow> VoiceAnalysisService" where
  "stopListening s =
     (let s1 = s\<lparr>svc_isListening := False\<rparr>
      in case analysisInterval s1 of
           None \<Rightarrow> s1
         | Some i \<Rightarrow> if i = 0 then s1 else (clearTimeout i s1)\<lparr>analysisInterval := None\<rparr>)"

subsection \<open>Transcription\<close>

definition startTranscription :: "bool \<Rightarrow> VoiceAnalysisService \<Rightarrow> JsError option \<times> VoiceAnalysisService" where
  "startTranscription throws s =
     (if isTranscribing s then (None, s)
      else if recognition s = None then
        (None, console_log Error ''No recognition object! Speech API not supported?'' s)
      else
        case recognition_start throws (s\<lparr>isTranscribing := True\<rparr>) of
          (None, s1) \<Rightarrow> (None, s1)
        | (Some e, s1) \<Rightarrow>
            (None, (console_log Error ''Could not start recognition:'' s1)\<lparr>isTranscribing := False\<rparr>))"

definition stopTranscription :: "VoiceAnalysisService \<Rightarrow> VoiceAnalysisService" where
  "stopTranscription s =
     (let s1 = s\<lparr>isTranscribing := False\<rparr>
      in if recognition s1 = None then s1 else recognition_stop s1)"

text \<open>
  The handler of the recognition object's \<open>end\<close> event, and the function it hands to
  \<open>setTimeout\<close>.
\<close>

definition onend :: "VoiceAnalysisService \<Rightarrow> VoiceAnalysisService" where
  "onend s =
     (if isTranscribing s \<and> recognition s \<noteq> None
      then snd (setTimeout RestartRecognition 100 s)
      else s)"

definition restart_recognition :: "bool \<Rightarrow> VoiceAnalysisService \<Rightarrow> VoiceAnalysisService" where
  "restart_recognition throws s =
     (if isTranscribing s then
        if recognition s = None then s
        else
          case recognition_start throws s of
            (None, s1) \<Rightarrow> s1
          | (Some e, s1) \<Rightarrow> console_log Warn ''Could not restart:'' s1
      else s)"

text \<open>
  The handler of the \<open>result\<close> event, on the transcript, confidence and finality of the
  last result of the event; a confidence of 0 is replaced by 0.9.
\<close>

definition onresult :: "string \<Rightarrow> real \<Rightarrow> bool \<Rightarrow> nat \<Rightarrow> VoiceAnalysisService \<Rightarrow> VoiceAnalysisService" where
  "onresult transcript conf final now s =
     (if onTranscriptionCallback s
      then s\<lparr>transcribed := transcribed s @
                [\<lparr>t_text = transcript, isFinal = final,
                  t_confidence = (if conf = 0 then 9 / 10 else conf), t_timestamp = now\<rparr>]\<rparr>
      else s)"

subsection \<open>Set-up and disposal\<close>

definition initialize :: "bool \<Rightarrow> VoiceAnalysisService \<Rightarrow> VoiceAnalysisService" where
  "initialize speechSupported s =
     (let s1 = s\<lparr>audioContext := Some (sampleRate (config s)), analyser := Some (fftSize (config s)),
                 mediaStreamSource := True\<rparr>
      in if speechSupported
         then s1\<lparr>recognition := Some \<lparr>continuous = True, interimResults = True, lang = language (config s)\<rparr>\<rparr>
         else console_log Warn ''Speech Recognition not supported'' s1)"

definition setLanguage :: "string \<Rightarrow> VoiceAnalysisService \<Rightarrow> VoiceAnalysisService" where
  "setLanguage l s =
     (let s1 = s\<lparr>config := (config s)\<lparr>language := l\<rparr>\<rparr>
      in case recognition s1 of None \<Rightarrow> s1 | Some r \<Rightarrow> s1\<lparr>recognition := Some (r\<lparr>lang := l\<rparr>)\<rparr>)"

definition onVoiceEmotion :: "VoiceAnalysisService \<Rightarrow> VoiceAnalysisService" where
  "onVoiceEmotion s = s\<lparr>onVoiceEmotionCallback := True\<rparr>"

definition onTranscription :: "VoiceAnalysisService \<Rightarrow> VoiceAnalysisService" where
  "onTranscription s = s\<lparr>onTranscriptionCallback := True\<rparr>"

definition dispose :: "VoiceAnalysisService \<Rightarrow> VoiceAnalysisService" where
  "dispose s =
     (stopTranscription (stopListening s))
       \<lparr>mediaStreamSource := False, audioContext := None, analyser := None, recognition := None\<rparr>"

subsection \<open>Runs of the service\<close>

text \<open>
  Everything that can happen to a service object: a call of one of its public methods, a
  timeout running (with the frame, the time and the behaviour of \<open>start\<close> at that
  moment), and the two events of the recognition object.
\<close>

datatype ServiceEvent =
    Initialize bool
  | SetLanguage string
  | OnVoiceEmotion
  | OnTranscription
  | StartListening Frame nat
  | StartTranscription bool
  | StopListening
  | StopTranscription
  | Dispose
  | RunTimer nat Frame nat bool
  | RecognitionEnded
  | RecognitionResult string real bool nat

definition run_timer :: "nat \<Rightarrow> Frame \<Rightarrow> nat \<Rightarrow> bool \<Rightarrow> VoiceAnalysisService \<Rightarrow> VoiceAnalysisService" where
  "run_timer i frame now throws s =
     (case find (\<lambda>t. timerId t = i) (timers s) of
        None \<Rightarrow> s
      | Some t \<Rightarrow>
          (case timerTask t of
             AnalysisTick \<Rightarrow> runAnalysisLoop frame now (clearTimeout i s)
           | RestartRecognition \<Rightarrow> restart_recognition throws (clearTimeout i s)))"

fun service_step :: "ServiceEvent \<Rightarrow> VoiceAnalysisService \<Rightarrow> VoiceAnalysisService" where
  "service_step (Initialize speechSupported) s = initialize speechSupported s"
| "service_step (SetLanguage l) s = setLanguage l s"
| "service_step OnVoiceEmotion s = onVoiceEmotion s"
| "service_step OnTranscription s = onTranscription s"
| "service_step (StartListening frame now) s = startListening frame now s"
| "service_step (StartTranscription throws) s = snd (startTranscription throws s)"
| "service_step StopListening s = stopListening s"
| "service_step StopTranscription s = stopTranscription s"
| "service_step Dispose s = dispose s"
| "service_step (RunTimer i frame now throws) s = run_timer i frame now throws s"
| "service_step RecognitionEnded s = onend s"
| "service_step (RecognitionResult transcript conf final now) s = onresult transcript conf final now s"

definition service_run :: "ServiceEvent list \<Rightarrow> VoiceAnalysisService \<Rightarrow> VoiceAnalysisService" where
  "service_run evs s = fold service_step evs s"

text \<open>
  The invariant of the service that its runs keep: the transcription flag is set only while
  a recognition object exists, a pending timeout has an identifier below the next one to be
  handed out, and neither history holds more than 20 samples.
\<close>

definition service_inv :: "VoiceAnalysisService \<Rightarrow> bool" where
  "service_inv s \<longleftrightarrow>
     (isTranscribing s \<longrightarrow> recognition s \<noteq> None)
     \<and> (\<forall>t \<in> set (timers s). timerId t < nextTimerId s)
     \<and> length (pitchHistory s) \<le> 20
     \<and> length (volumeHistory s) \<le> 20"

text \<open>Sample inputs: the default configuration, and a frame of silence.\<close>

definition sample_config :: VoiceAnalysisConfig where
  "sample_config = \<lparr>sampleRate = 44100, fftSize = 2048, language = ''en-US''\<rparr>"

definition silent_frame :: Frame where
  "silent_frame = [(0, 128), (0, 128)]"

section \<open>The face emotion service\<close>

text \<open>
  Of the face service, the state and the two methods that the hook's controls call.
  \<open>startDetection\<close> is asynchronous; the hook does not await it and drops its rejection.
  Whether the models load, when the service still has to load them, is an input from the
  environment. The run of the detection loop ends at its first \<open>await\<close>, with one
  detection in flight.
\<close>

datatype FaceError = ModelsNotAvailable | VideoElementNotSet

record FaceEmotionService =
  fs_isInitialized :: bool
  isDetecting :: bool
  videoElement :: bool
  detectionInterval :: "nat option"
  onEmotionCallback :: bool
  detectionsInFlight :: nat

definition runDetectionLoop :: "FaceEmotionService \<Rightarrow> FaceEmotionService" where
  "runDetectionLoop f =
     (if \<not> isDetecting f \<or> \<not> videoElement f then f
      else f\<lparr>detectionsInFlight := Suc (detectionsInFlight f)\<rparr>)"

definition startDetection :: "bool \<Rightarrow> FaceEmotionService \<Rightarrow> FaceError option \<times> FaceEmotionService" where
  "startDetection modelsLoad f =
     (if \<not> fs_isInitialized f \<and> \<not> modelsLoad then (Some ModelsNotAvailable, f)
      else
        let f1 = f\<lparr>fs_isInitialized := True\<rparr>
        in if \<not> videoElement f1 then (Some VideoElementNotSet, f1)
           else if isDetecting f1 then (None, f1)
           else (None, runDetectionLoop (f1\<lparr>isDetecting := True\<rparr>)))"

definition stopDetection :: "FaceEmotionService \<Rightarrow> FaceEmotionService" where
  "stopDetection f =
     (let f1 = f\<lparr>isDetecting := False\<rparr>
      in case detectionInterval f1 of
           None \<Rightarrow> f1
         | Some i \<Rightarrow> if i = 0 then f1 else f1\<lparr>detectionInterval := None\<rparr>)"

section \<open>The hook\<close>

text \<open>
  The state of \<open>useMultimodalAI\<close>: its state variables, its refs, and the requests it has
  sent to the chat function (\<open>requests\<close>) and the calls of the caller's two optional
  callbacks (\<open>emotionChanges\<close>, \<open>transcriptionNotices\<close>). A state setter takes effect at
  once in the model. The console output of the hook is left out.
\<close>

datatype AIProvider = Claude | OpenAI

datatype Role = User | Assistant

record EmotionState =
  facial :: "EmotionResult option"
  voice :: "VoiceEmotionResult option"
  combined :: "Combined option"

record Message =
  msg_id :: string
  role :: Role
  content :: string
  m_timestamp :: nat
  emotionContext :: "(EmotionResult option \<times> VoiceEmotionResult option) option"

record ChatRequest =
  req_message :: string
  req_facial :: "(string \<times> real) option"
  req_voice :: "(string \<times> real \<times> VoiceMetrics) option"
  conversationHistory :: "(Role \<times> string) list"
  req_provider :: AIProvider
  req_model :: string
  req_systemPrompt :: "string option"

record Hook =
  messages :: "Message list"
  currentTranscript :: string
  isListening :: bool
  isProcessing :: bool
  emotionState :: EmotionState
  error :: "string option"
  provider :: AIProvider
  isInitialized :: bool
  isCameraActive :: bool
  isMicActive :: bool
  isFaceDetectionActive :: bool
  faceServiceRef :: "FaceEmotionService option"
  voiceServiceRef :: "VoiceAnalysisService option"
  latestEmotionRef :: EmotionState
  requests :: "ChatRequest list"
  emotionChanges :: "EmotionState list"
  transcriptionNotices :: "(string \<times> bool) list"

text \<open>
  What a callback created in one render sees of the values of that render: the message list,
  the provider and the system prompt that \<open>sendMessage\<close> closes over, and whether the
  caller supplied the two optional callbacks.
\<close>

record Closure =
  seen_messages :: "Message list"
  seen_provider :: AIProvider
  seen_systemPrompt :: "string option"
  has_onEmotionChange :: bool
  has_onTranscription :: bool

definition CLAUDE_MODEL :: string where
  "CLAUDE_MODEL = ''claude-sonnet-4-20250514''"

text \<open>
  \<open>String.prototype.trim\<close> on a string of characters below 256: the white space and line
  terminators of that range are removed from both ends.
\<close>

definition is_ws :: "char \<Rightarrow> bool" where
  "is_ws c \<longleftrightarrow> c \<in> set [CHR 0x09, CHR 0x0A, CHR 0x0B, CHR 0x0C, CHR 0x0D, CHR 0x20, CHR 0xA0]"

definition trim :: "string \<Rightarrow> string" where
  "trim s = rev (dropWhile is_ws (rev (dropWhile is_ws s)))"

text \<open>
  \<open>sendMessage\<close> up to its first \<open>await\<close>: the user message is appended and the chat
  function is invoked. The identifier and the time come from the environment.
\<close>

definition sendMessage :: "Closure \<Rightarrow> string \<Rightarrow> nat \<Rightarrow> string \<Rightarrow> Hook \<Rightarrow> Hook" where
  "sendMessage cl newId now txt h =
     (if trim txt = [] then h
      else
        let userMessage =
              \<lparr>msg_id = newId, role = User, content = trim txt, m_timestamp = now,
               emotionContext = Some (facial (latestEmotionRef h), voice (latestEmotionRef h))\<rparr>;
            request =
              \<lparr>req_message = trim txt,
               req_facial = map_option (\<lambda>f. (emotion_str (dominant f), f_confidence f))
                              (facial (latestEmotionRef h)),
               req_voice = map_option (\<lambda>v. (voice_str (emotion v), v_confidence v, metrics v))
                             (voice (latestEmotionRef h)),
               conversationHistory =
                 map (\<lambda>msg. (role msg, content msg))
                   (drop (length (seen_messages cl) - 10) (seen_messages cl)),
               req_provider = seen_provider cl, req_model = CLAUDE_MODEL,
               req_systemPrompt = seen_systemPrompt cl\<rparr>
        in h\<lparr>isProcessing := True, error := None, messages := messages h @ [userMessage],
             requests := requests h @ [request]\<rparr>)"

text \<open>
  The rest of \<open>sendMessage\<close>, once the chat function has answered: with the response
  (\<open>Inr\<close>) or with the message of the error (\<open>Inl\<close>).
\<close>

definition sendMessage_settled :: "string + string \<Rightarrow> string \<Rightarrow> nat \<Rightarrow> Hook \<Rightarrow> Hook" where
  "sendMessage_settled outcome newId now h =
     (case outcome of
        Inr response \<Rightarrow>
          h\<lparr>messages := messages h @
                [\<lparr>msg_id = newId, role = Assistant, content = response, m_timestamp = now,
                  emotionContext = None\<rparr>],
            isProcessing := False\<rparr>
      | Inl msg \<Rightarrow> h\<lparr>error := Some msg, isProcessing := False\<rparr>)"

text \<open>The three callbacks that \<open>initialize\<close> registers with the two services.\<close>

definition handleFaceEmotion :: "Closure \<Rightarrow> EmotionResult \<Rightarrow> Hook \<Rightarrow> Hook" where
  "handleFaceEmotion cl result h =
     (let prev = emotionState h;
          newState = prev\<lparr>facial := Some result, combined := combineEmotions (Some result) (voice prev)\<rparr>
      in h\<lparr>emotionState := newState,
           emotionChanges := (if has_onEmotionChange cl then emotionChanges h @ [newState]
                              else emotionChanges h)\<rparr>)"

definition handleVoiceEmotion :: "Closure \<Rightarrow> VoiceEmotionResult \<Rightarrow> Hook \<Rightarrow> Hook" where
  "handleVoiceEmotion cl result h =
     (let prev = emotionState h;
          newState = prev\<lparr>voice := Some result, combined := combineEmotions (facial prev) (Some result)\<rparr>
      in h\<lparr>emotionState := newState,
           emotionChanges := (if has_onEmotionChange cl then emotionChanges h @ [newState]
                              else emotionChanges h)\<rparr>)"

definition handleTranscription :: "Closure \<Rightarrow> string \<Rightarrow> nat \<Rightarrow> TranscriptionResult \<Rightarrow> Hook \<Rightarrow> Hook" where
  "handleTranscription cl newId now result h =
     (let h1 = h\<lparr>currentTranscript := t_text result,
                 transcriptionNotices :=
                   (if has_onTranscription cl
                    then transcriptionNotices h @ [(t_text result, isFinal result)]
                    else transcriptionNotices h)\<rparr>
      in if isFinal result \<and> trim (t_text result) \<noteq> []
         then (sendMessage cl newId now (trim (t_text result)) h1)\<lparr>currentTranscript := []\<rparr>
         else h1)"

text \<open>The controls. The arguments before the state are what the environment decides.\<close>

definition startFaceDetection :: "bool \<Rightarrow> Hook \<Rightarrow> Hook" where
  "startFaceDetection modelsLoad h =
     (if \<not> isInitialized h
      then h\<lparr>error := Some ''Services not initialized. Call initialize() first.''\<rparr>
      else h\<lparr>faceServiceRef := map_option (\<lambda>f. snd (startDetection modelsLoad f)) (faceServiceRef h),
             isFaceDetectionActive := True\<rparr>)"

definition stopFaceDetection :: "Hook \<Rightarrow> Hook" where
  "stopFaceDetection h =
     h\<lparr>faceServiceRef := map_option stopDetection (faceServiceRef h),
       isFaceDetectionActive := False\<rparr>"

definition hook_startListening :: "Frame \<Rightarrow> nat \<Rightarrow> bool \<Rightarrow> Hook \<Rightarrow> Hook" where
  "hook_startListening frame now throws h =
     (if \<not> isInitialized h
      then h\<lparr>error := Some ''Services not initialized. Call initialize() first.''\<rparr>
      else h\<lparr>voiceServiceRef :=
               map_option (\<lambda>v. snd (startTranscription throws (startListening frame now v)))
                 (voiceServiceRef h),
             isListening := True\<rparr>)"

definition hook_stopListening :: "Hook \<Rightarrow> Hook" where
  "hook_stopListening h =
     h\<lparr>voiceServiceRef := map_option (\<lambda>v. stopTranscription (stopListening v)) (voiceServiceRef h),
       isListening := False\<rparr>"

definition clearMessages :: "Hook \<Rightarrow> Hook" where
  "clearMessages h = h\<lparr>messages := [], currentTranscript := [], error := None\<rparr>"

definition setProvider :: "AIProvider \<Rightarrow> Hook \<Rightarrow> Hook" where
  "setProvider newProvider h = h\<lparr>provider := newProvider\<rparr>"

text \<open>
  A sequence of calls of the four controls.
\<close>

datatype Control =
    CallStartListening Frame nat bool
  | CallStopListening
  | CallStartFaceDetection bool
  | CallStopFaceDetection

fun control_step :: "Control \<Rightarrow> Hook \<Rightarrow> Hook" where
  "control_step (CallStartListening frame now throws) h = hook_startListening frame now throws h"
| "control_step CallStopListening h = hook_stopListening h"
| "control_step (CallStartFaceDetection modelsLoad) h = startFaceDetection modelsLoad h"
| "control_step CallStopFaceDetection h = stopFaceDetection h"

fun is_listening_control :: "Control \<Rightarrow> bool" where
  "is_listening_control (CallStartListening frame now throws) = True"
| "is_listening_control CallStopListening = True"
| "is_listening_control (CallStartFaceDetection modelsLoad) = False"
| "is_listening_control CallStopFaceDetection = False"

definition sample_closure :: Closure where
  "sample_closure =
     \<lparr>seen_messages = [], seen_provider = Claude, seen_systemPrompt = None,
      has_onEmotionChange = False, has_onTranscription = False\<rparr>"

text \<open>A hook as \<open>initialize\<close> leaves it, and a final segment with the text "hello".\<close>

definition sample_hook :: Hook where
  "sample_hook =
     \<lparr>messages = [], currentTranscript = [], isListening = False, isProcessing = False,
      emotionState = \<lparr>facial = None, voice = None, combined = None\<rparr>, error = None,
      provider = Claude, isInitialized = True, isCameraActive = True, isMicActive = True,
      isFaceDetectionActive = True,
      faceServiceRef =
        Some \<lparr>fs_isInitialized = True, isDetecting = True, videoElement = True,
              detectionInterval = None, onEmotionCallback = True, detectionsInFlight = 1\<rparr>,
      voiceServiceRef =
        Some (onTranscription (onVoiceEmotion (setLanguage ''en-US''
               (initialize True (new_service sample_config))))),
      latestEmotionRef = \<lparr>facial = None, voice = None, combined = None\<rparr>,
      requests = [], emotionChanges = [], transcriptionNotices = []\<rparr>"

definition hello_segment :: TranscriptionResult where
  "hello_segment = \<lparr>t_text = ''hello'', isFinal = True, t_confidence = 9 / 10, t_timestamp = 0\<rparr>"

section \<open>Properties of the rounding\<close>












text \<open>
  Three values for orientation: the double written 0.1, the sum 0.1 + 0.2 that is not the
  double written 0.3, and the pitch that the detector reports at a sample rate of 44100 Hz
  for a best lag of 88 samples.
\<close>

lemma fl_tenths_sum: "fl (fl (1 / 10) + fl (2 / 10)) \<noteq> fl (3 / 10)"
  by code_simp

lemma fl_0: "fl 0 = 0"
  by (simp add: fl_def)

lemma fl_tenth: "fl (1 / 10) = 3602879701896397 / 36028797018963968"
  by code_simp

lemma fl_pitch: "fl (44100 / 88) = 4408042071356509 / 8796093022208"
  by code_simp

lemma fl_pitch_fixed: "fl (4408042071356509 / 8796093022208) = 4408042071356509 / 8796093022208"
  by code_simp

section \<open>Properties of the fusion\<close>











section \<open>Properties of the classifier\<close>

lemma pick_dominant_ge_init: "mx \<le> snd (pick_dominant xs (d, mx))"
proof (induction xs arbitrary: d mx)
  case Nil
  then show ?case by simp
next
  case (Cons a xs)
  obtain e sc where a: "a = (e, sc)" by (cases a)
  show ?case
  proof (cases "sc > mx")
    case True
    have "sc \<le> snd (pick_dominant xs (e, sc))" by (rule Cons.IH)
    with True a show ?thesis by simp
  next
    case False
    with a Cons.IH[of mx d] show ?thesis by simp
  qed
qed

lemma pick_dominant_ge_member:
  "(e, sc) \<in> set xs \<Longrightarrow> sc \<le> snd (pick_dominant xs (d, mx))"
proof (induction xs arbitrary: d mx)
  case Nil
  then show ?case by simp
next
  case (Cons a xs)
  obtain e' sc' where a: "a = (e', sc')" by (cases a)
  show ?case
  proof (cases "(e, sc) = a")
    case True
    then have eq: "sc' = sc" "e' = e" using a by simp_all
    show ?thesis
    proof (cases "sc > mx")
      case True
      have "sc \<le> snd (pick_dominant xs (e, sc))" by (rule pick_dominant_ge_init)
      with True a eq show ?thesis by simp
    next
      case False
      have "mx \<le> snd (pick_dominant xs (d, mx))" by (rule pick_dominant_ge_init)
      with False a eq show ?thesis by simp
    qed
  next
    case False
    with Cons.prems have mem: "(e, sc) \<in> set xs" by simp
    show ?thesis using a Cons.IH[OF mem] by simp
  qed
qed

lemma neutral_score_pitch: "neutral (score_pitch m s) = neutral s"
  by (simp add: score_pitch_def Let_def)

lemma neutral_score_volume: "neutral (score_volume m s) = neutral s"
  by (simp add: score_volume_def)

lemma neutral_score_energy: "neutral (score_energy m s) = neutral s"
  by (simp add: score_energy_def)

lemma neutral_bumped: "fl (3 / 10) \<le> bump (fl (3 / 10)) (1 / 10)"
  unfolding bump_def by code_simp

lemma neutral_score_pitchVariation:
  assumes "neutral s = fl (3 / 10)"
  shows "fl (3 / 10) \<le> neutral (score_pitchVariation m s)"
  using assms neutral_bumped by (simp add: score_pitchVariation_def)

lemma neutral_scores_ge:
  "fl (3 / 10)
   \<le> neutral (score_energy m (score_pitchVariation m (score_volume m (score_pitch m initial_scores))))"
proof -
  have "neutral initial_scores = fl (3 / 10)" by (simp add: initial_scores_def)
  then have "neutral (score_volume m (score_pitch m initial_scores)) = fl (3 / 10)"
    by (simp add: neutral_score_volume neutral_score_pitch)
  then have "fl (3 / 10)
      \<le> neutral (score_pitchVariation m (score_volume m (score_pitch m initial_scores)))"
    by (rule neutral_score_pitchVariation)
  then show ?thesis by (simp add: neutral_score_energy)
qed

lemma score_pitch_speechRate: "score_pitch (m\<lparr>speechRate := r\<rparr>) s = score_pitch m s"
  by (simp add: score_pitch_def)

lemma score_volume_speechRate: "score_volume (m\<lparr>speechRate := r\<rparr>) s = score_volume m s"
  by (simp add: score_volume_def)

lemma score_pitchVariation_speechRate:
  "score_pitchVariation (m\<lparr>speechRate := r\<rparr>) s = score_pitchVariation m s"
  by (simp add: score_pitchVariation_def)

lemma score_energy_speechRate: "score_energy (m\<lparr>speechRate := r\<rparr>) s = score_energy m s"
  by (simp add: score_energy_def)

lemma detectEmotion_speechRate:
  "detectEmotion (m\<lparr>speechRate := r\<rparr>) = detectEmotion m"
  by (simp only: detectEmotion_def score_pitch_speechRate score_volume_speechRate
      score_pitchVariation_speechRate score_energy_speechRate)

text \<open>
  Rounding decides a label: with pitch 300, loudness 0.2, pitch variation 20 and energy 0.5
  the scores of happy, sad and neutral are the double 0.3 and the score of fearful is
  0.2 + 0.1, the next double above it, so the answer is "fearful" where exact sums would
  tie and leave "happy".
\<close>

lemma detectEmotion_rounded_tie:
  "detectEmotion \<lparr>pitch = 300, pitchVariation = 20, volume = 2 / 10, volumeVariation = 0,
                   speechRate = 0, energy = 1 / 2\<rparr>
   = (VFearful, 1351079888211149 / 4503599627370496)"
  by code_simp

text \<open>
  C10, as the specification states it, fails on the code's arithmetic by the rounding of
  the literal: when no rule fires, the confidence is the prior of the neutral label, the
  double 0.3, which lies below 3/10 (by less than 2^-54).
\<close>

theorem detectEmotion_confidence_counterexample:
  "detectEmotion \<lparr>pitch = 0, pitchVariation = 20, volume = 1 / 2, volumeVariation = 0,
                   speechRate = 0, energy = 1 / 2\<rparr>
     = (VNeutral, 5404319552844595 / 18014398509481984)
   \<and> snd (detectEmotion \<lparr>pitch = 0, pitchVariation = 20, volume = 1 / 2, volumeVariation = 0,
                          speechRate = 0, energy = 1 / 2\<rparr>) < 3 / 10"
proof -
  have a: "detectEmotion \<lparr>pitch = 0, pitchVariation = 20, volume = 1 / 2, volumeVariation = 0,
                   speechRate = 0, energy = 1 / 2\<rparr>
     = (VNeutral, 5404319552844595 / 18014398509481984)"
    by code_simp
  show ?thesis unfolding a by simp
qed

text \<open>
  C10, amended. The confidence that \<open>detectEmotion\<close> reports lies between the double 0.3
  and 1 for every input: the score of the neutral label starts at the double 0.3 and is
  never lowered, the loop returns a score at least as great as each score it has seen, and
  the result is clamped to 1. The double 0.3 is within 2^-54 of 3/10.
\<close>

theorem detectEmotion_confidence_bounds:
  "fl (3 / 10) \<le> snd (detectEmotion m) \<and> snd (detectEmotion m) \<le> 1
   \<and> \<bar>fl (3 / 10) - 3 / 10\<bar> \<le> 1 / 2 ^ 54"
proof -
  let ?sc = "score_energy m (score_pitchVariation m (score_volume m (score_pitch m initial_scores)))"
  have mem: "(VNeutral, neutral ?sc) \<in> set (entries ?sc)" by (simp add: entries_def)
  have "neutral ?sc \<le> snd (pick_dominant (entries ?sc) (VNeutral, 0))"
    using mem by (rule pick_dominant_ge_member)
  with neutral_scores_ge[of m]
  have ge: "fl (3 / 10) \<le> snd (pick_dominant (entries ?sc) (VNeutral, 0))"
    by linarith
  have eq: "snd (detectEmotion m) = min 1 (snd (pick_dominant (entries ?sc) (VNeutral, 0)))"
    by (simp add: detectEmotion_def Let_def split: prod.splits)
  have le1: "fl (3 / 10) \<le> 1" by code_simp
  have near: "\<bar>fl (3 / 10) - 3 / 10\<bar> \<le> 1 / 2 ^ 54" by code_simp
  show ?thesis using ge eq le1 near by simp
qed

text \<open>
  C3, as the specification states it, fails: on the input with pitch 300, loudness 0.2,
  energy 0.5, pitch variation 10 and loudness variation 0 the classifier does not answer
  "happy".
\<close>

theorem detectEmotion_example_counterexample:
  "fst (detectEmotion \<lparr>pitch = 300, pitchVariation = 10, volume = 2 / 10, volumeVariation = 0,
                        speechRate = 0, energy = 5 / 10\<rparr>) \<noteq> VHappy"
  by code_simp

text \<open>
  C3, amended. On that input the scores are happy 0.3, sad 0.3 + 0.2, which is 0.5 without
  rounding error, angry 0, fearful 0.2 + 0.1 and neutral 0.3 + 0.1, all of them below 0.5
  but sad, so the classifier answers "sad" with confidence 0.5, whatever the speech rate.
\<close>

theorem detectEmotion_example:
  "detectEmotion \<lparr>pitch = 300, pitchVariation = 10, volume = 2 / 10, volumeVariation = 0,
                   speechRate = r, energy = 5 / 10\<rparr> = (VSad, 1 / 2)"
proof -
  have a: "detectEmotion \<lparr>pitch = 300, pitchVariation = 10, volume = 2 / 10, volumeVariation = 0,
                   speechRate = 0, energy = 5 / 10\<rparr> = (VSad, 1 / 2)"
    by code_simp
  have "detectEmotion (\<lparr>pitch = 300, pitchVariation = 10, volume = 2 / 10, volumeVariation = 0,
                   speechRate = 0, energy = 5 / 10\<rparr>\<lparr>speechRate := r\<rparr>) = (VSad, 1 / 2)"
    by (simp only: detectEmotion_speechRate a)
  then show ?thesis by simp
qed

section \<open>Properties of the rolling variation\<close>

lemma foldl_add_sum_list: "foldl (+) (a::real) xs = a + sum_list xs"
  by (induction xs arbitrary: a) simp_all

lemma calculateStdDev_population: "calculateStdDev xs = population_stddev xs"
  by (simp add: calculateStdDev_def population_stddev_def foldl_add_sum_list Let_def)

lemma population_stddev_replicate: "population_stddev (replicate n x) = 0"
proof (cases n)
  case 0
  then show ?thesis by (simp add: population_stddev_def)
next
  case (Suc k)
  have s: "sum_list (replicate n x) = real n * x" by (simp add: sum_list_replicate)
  have m: "sum_list (replicate n x) / real (length (replicate n x)) = x"
    using Suc s by simp
  have "(\<Sum>y\<leftarrow>replicate n x. (y - x) ^ 2) = 0"
    by (simp add: sum_list_replicate)
  then show ?thesis using m by (simp add: population_stddev_def)
qed

lemma length_push_capped: "length h \<le> 20 \<Longrightarrow> length (push_capped x h) \<le> 20"
  by (simp add: push_capped_def Let_def)

lemma inv_new: "service_inv (new_service cfg)"
  by (simp add: service_inv_def new_service_def)

lemma inv_runAnalysisLoop: "service_inv s \<Longrightarrow> service_inv (runAnalysisLoop frame now s)"
  by (auto simp: service_inv_def runAnalysisLoop_def setTimeout_def Let_def length_push_capped
      split: prod.splits)

lemma inv_startListening: "service_inv s \<Longrightarrow> service_inv (startListening frame now s)"
proof -
  assume a: "service_inv s"
  then have "service_inv (s\<lparr>svc_isListening := True, pitchHistory := [], volumeHistory := []\<rparr>)"
    by (simp add: service_inv_def)
  then show ?thesis using a by (simp add: startListening_def inv_runAnalysisLoop)
qed

lemma inv_stopListening: "service_inv s \<Longrightarrow> service_inv (stopListening s)"
  by (auto simp: service_inv_def stopListening_def clearTimeout_def Let_def split: option.splits)

lemma inv_startTranscription: "service_inv s \<Longrightarrow> service_inv (snd (startTranscription throws s))"
  by (auto simp: service_inv_def startTranscription_def recognition_start_def console_log_def)

lemma inv_stopTranscription: "service_inv s \<Longrightarrow> service_inv (stopTranscription s)"
  by (auto simp: service_inv_def stopTranscription_def recognition_stop_def Let_def)

lemma inv_dispose: "service_inv s \<Longrightarrow> service_inv (dispose s)"
proof -
  assume "service_inv s"
  then have "service_inv (stopTranscription (stopListening s))"
    by (simp add: inv_stopListening inv_stopTranscription)
  moreover have "\<not> isTranscribing (stopTranscription (stopListening s))"
    by (simp add: stopTranscription_def recognition_stop_def Let_def)
  ultimately show ?thesis by (simp add: service_inv_def dispose_def)
qed

lemma inv_clearTimeout: "service_inv s \<Longrightarrow> service_inv (clearTimeout i s)"
  by (auto simp: service_inv_def clearTimeout_def)

lemma inv_restart: "service_inv s \<Longrightarrow> service_inv (restart_recognition throws s)"
  by (auto simp: service_inv_def restart_recognition_def recognition_start_def console_log_def)

lemma inv_run_timer: "service_inv s \<Longrightarrow> service_inv (run_timer i frame now throws s)"
  by (simp add: run_timer_def inv_clearTimeout inv_restart inv_runAnalysisLoop
      split: option.splits TimerTask.splits)

lemma inv_onend: "service_inv s \<Longrightarrow> service_inv (onend s)"
  by (auto simp: service_inv_def onend_def setTimeout_def)

lemma inv_onresult: "service_inv s \<Longrightarrow> service_inv (onresult tr c f now s)"
  by (simp add: service_inv_def onresult_def)

lemma inv_initialize: "service_inv s \<Longrightarrow> service_inv (initialize supported s)"
  by (simp add: service_inv_def initialize_def console_log_def Let_def)

lemma inv_setLanguage: "service_inv s \<Longrightarrow> service_inv (setLanguage l s)"
  by (auto simp: service_inv_def setLanguage_def Let_def split: option.splits)

lemma inv_step: "service_inv s \<Longrightarrow> service_inv (service_step ev s)"
  by (cases ev)
    (simp_all add: inv_initialize inv_setLanguage inv_startListening inv_startTranscription
      inv_stopListening inv_stopTranscription inv_dispose inv_run_timer inv_onend inv_onresult,
     simp_all add: service_inv_def onVoiceEmotion_def onTranscription_def)

lemma inv_fold: "service_inv s \<Longrightarrow> service_inv (fold service_step evs s)"
  by (induction evs arbitrary: s) (simp_all add: inv_step)

lemma inv_run: "service_inv (service_run evs (new_service cfg))"
  by (simp add: service_run_def inv_fold inv_new)

lemma calculateStdDev_double_empty: "calculateStdDev_double [] = 0"
  by (simp add: calculateStdDev_double_def)

lemma calculateStdDev_double_single:
  assumes "fl x = x"
  shows "calculateStdDev_double [x] = 0"
  using assms by (simp add: calculateStdDev_double_def fl_0)

subsection \<open>The histories and their standard deviation\<close>

text \<open>
  C8, amended. After any run of the service from a fresh object neither history holds more
  than 20 samples. \<open>calculateStdDev\<close> computes the population standard deviation of its
  window. It returns 0 for the empty window and for a window of one sample, in exact and in
  double arithmetic; for a window of equal samples it returns 0 in exact arithmetic.
\<close>

theorem history_bounded_and_stddev:
  "length (pitchHistory (service_run evs (new_service cfg))) \<le> 20
   \<and> length (volumeHistory (service_run evs (new_service cfg))) \<le> 20
   \<and> calculateStdDev xs = population_stddev xs
   \<and> calculateStdDev [] = 0
   \<and> calculateStdDev [x] = 0
   \<and> calculateStdDev (replicate n x) = 0
   \<and> calculateStdDev_double [] = 0
   \<and> (fl x = x \<longrightarrow> calculateStdDev_double [x] = 0)"
proof -
  have i: "service_inv (service_run evs (new_service cfg))" by (rule inv_run)
  have e: "calculateStdDev [] = 0" by (simp add: calculateStdDev_def)
  have r: "calculateStdDev (replicate n x) = 0" for n
    by (simp only: calculateStdDev_population population_stddev_replicate)
  have "calculateStdDev (replicate 1 x) = 0" by (rule r)
  then have o: "calculateStdDev [x] = 0" by simp
  show ?thesis
    using i e o r[of n] calculateStdDev_double_empty calculateStdDev_double_single[of x]
    by (simp add: service_inv_def calculateStdDev_population)
qed

text \<open>Witness for C8: the pitch 44100/88 as a double, and a short run of the service.\<close>

theorem history_bounded_and_stddev_witness:
  "fl (fl (44100 / 88)) = fl (44100 / 88)
   \<and> calculateStdDev_double [fl (44100 / 88)] = 0
   \<and> calculateStdDev [fl (44100 / 88)] = 0
   \<and> length (pitchHistory (service_run [Initialize True, StartListening silent_frame 0]
                (new_service sample_config))) \<le> 20"
proof -
  have h: "fl (fl (44100 / 88)) = fl (44100 / 88)"
    by (simp only: fl_pitch fl_pitch_fixed)
  from history_bounded_and_stddev
         [of "[Initialize True, StartListening silent_frame 0]" sample_config "[]" "fl (44100 / 88)" 3]
       h
  show ?thesis by blast
qed

text \<open>
  C8, as the specification states it, fails in double arithmetic: for the window of three
  samples of the pitch 44100/88 the sum 3p is rounded, the mean comes out one unit in the
  last place above p, and the result is 2^-44 (about 5.7e-14), not 0.
\<close>

theorem constant_window_counterexample:
  "calculateStdDev_double [fl (44100 / 88), fl (44100 / 88), fl (44100 / 88)] = 1 / 2 ^ 44
   \<and> calculateStdDev_double [fl (44100 / 88), fl (44100 / 88), fl (44100 / 88)] \<noteq> 0"
proof -
  have p: "fl (44100 / 88) = 4408042071356509 / 8796093022208"
    by code_simp
  have total: "foldl (\<lambda>a b. fl (a + b)) 0
      [4408042071356509 / 8796093022208, 4408042071356509 / 8796093022208,
       4408042071356509 / 8796093022208]
    = 1653015776758691 / 1099511627776"
    by code_simp
  have mean: "fl (1653015776758691 / 1099511627776
        / real (length [4408042071356509 / 8796093022208 :: real, 4408042071356509 / 8796093022208,
             4408042071356509 / 8796093022208]))
      = 8816084142713019 / 17592186044416"
    by code_simp
  have sq: "fl (fl (4408042071356509 / 8796093022208 - 8816084142713019 / 17592186044416) ^ 2)
      = 1 / 309485009821345068724781056"
    by code_simp
  have var: "fl (foldl (\<lambda>a b. fl (a + b)) 0
        [1 / 309485009821345068724781056, 1 / 309485009821345068724781056,
         1 / 309485009821345068724781056]
        / real (length [4408042071356509 / 8796093022208 :: real, 4408042071356509 / 8796093022208,
             4408042071356509 / 8796093022208]))
      = 1 / 309485009821345068724781056"
    by code_simp
  have root: "sqrt (1 / 309485009821345068724781056) = 1 / 17592186044416"
    by (rule real_sqrt_unique) (simp_all add: power2_eq_square)
  have r: "fl (1 / 17592186044416) = 1 / 17592186044416"
    by code_simp
  have n: "length [4408042071356509 / 8796093022208 :: real, 4408042071356509 / 8796093022208,
             4408042071356509 / 8796093022208] \<noteq> 0"
    by simp
  have "calculateStdDev_double [fl (44100 / 88), fl (44100 / 88), fl (44100 / 88)] = 1 / 17592186044416"
    by (simp only: calculateStdDev_double_def p Let_def total mean list.map sq var root r n if_False)
  then show ?thesis by simp
qed

section \<open>Properties of the analysis loop\<close>

text \<open>
  C7. One run of the loop body while the loop is running (the listening flag is set and the
  analyser exists): when the energy of the frame is at most 0.1, nothing is emitted and both
  histories stay as they are; whatever the energy, the run ends by setting the one timeout
  of 100 ms for the next run and storing its identifier.
\<close>

theorem gated_tick:
  assumes "svc_isListening s" and "analyser s \<noteq> None"
  shows "(energy (analyzeAudio frame s) \<le> 1 / 10 \<longrightarrow>
            emitted (runAnalysisLoop frame now s) = emitted s
            \<and> pitchHistory (runAnalysisLoop frame now s) = pitchHistory s
            \<and> volumeHistory (runAnalysisLoop frame now s) = volumeHistory s)
         \<and> timers (runAnalysisLoop frame now s)
             = timers s @ [\<lparr>timerId = nextTimerId s, timerDelay = 100, timerTask = AnalysisTick\<rparr>]
         \<and> analysisInterval (runAnalysisLoop frame now s) = Some (nextTimerId s)"
  using assms
  by (simp add: runAnalysisLoop_def setTimeout_def Let_def split: prod.splits)

lemma sample_listening:
  "svc_isListening (service_run [Initialize True, StartListening silent_frame 0] (new_service sample_config))"
  "analyser (service_run [Initialize True, StartListening silent_frame 0] (new_service sample_config)) \<noteq> None"
  by (simp_all add: service_run_def initialize_def startListening_def runAnalysisLoop_def
      setTimeout_def new_service_def Let_def split: prod.splits)

lemma silent_energy: "energy (analyzeAudio silent_frame s) \<le> 1 / 10"
  by (simp add: analyzeAudio_def silent_frame_def calculateEnergy_def frequencyData_def)

text \<open>
  Witness for C7: a service that has been initialized and started, on a frame of silence.
\<close>

theorem gated_tick_witness:
  "(let s = service_run [Initialize True, StartListening silent_frame 0] (new_service sample_config)
    in svc_isListening s \<and> analyser s \<noteq> None
       \<and> energy (analyzeAudio silent_frame s) \<le> 1 / 10
       \<and> emitted (runAnalysisLoop silent_frame 100 s) = emitted s
       \<and> pitchHistory (runAnalysisLoop silent_frame 100 s) = pitchHistory s
       \<and> volumeHistory (runAnalysisLoop silent_frame 100 s) = volumeHistory s
       \<and> timers (runAnalysisLoop silent_frame 100 s)
           = timers s @ [\<lparr>timerId = nextTimerId s, timerDelay = 100, timerTask = AnalysisTick\<rparr>]
       \<and> analysisInterval (runAnalysisLoop silent_frame 100 s) = Some (nextTimerId s))"
proof -
  define s where
    "s = service_run [Initialize True, StartListening silent_frame 0] (new_service sample_config)"
  have l: "svc_isListening s" and a: "analyser s \<noteq> None"
    unfolding s_def by (rule sample_listening)+
  have e: "energy (analyzeAudio silent_frame s) \<le> 1 / 10"
    by (rule silent_energy)
  from gated_tick[OF l a, of silent_frame 100] e
  have c: "emitted (runAnalysisLoop silent_frame 100 s) = emitted s
       \<and> pitchHistory (runAnalysisLoop silent_frame 100 s) = pitchHistory s
       \<and> volumeHistory (runAnalysisLoop silent_frame 100 s) = volumeHistory s
       \<and> timers (runAnalysisLoop silent_frame 100 s)
           = timers s @ [\<lparr>timerId = nextTimerId s, timerDelay = 100, timerTask = AnalysisTick\<rparr>]
       \<and> analysisInterval (runAnalysisLoop silent_frame 100 s) = Some (nextTimerId s)"
    by blast
  show ?thesis
    unfolding Let_def using l a e c unfolding s_def by blast
qed

section \<open>Properties of the transcription life cycle\<close>

lemma find_new_timer:
  assumes "\<forall>t \<in> set ts. timerId t < n"
  shows "find (\<lambda>t. timerId t = n) (ts @ [\<lparr>timerId = n, timerDelay = d, timerTask = k\<rparr>])
         = Some \<lparr>timerId = n, timerDelay = d, timerTask = k\<rparr>"
  using assms by (induction ts) auto

lemma filter_old_timers:
  assumes "\<forall>t \<in> set ts. timerId t < n"
  shows "filter (\<lambda>t. timerId t \<noteq> n) ts = ts"
  using assms by (induction ts) auto

lemma onend_transcribing:
  assumes "service_inv s" and "isTranscribing s"
  shows "onend s = s\<lparr>timers := timers s @ [\<lparr>timerId = nextTimerId s, timerDelay = 100,
                                             timerTask = RestartRecognition\<rparr>],
                     nextTimerId := Suc (nextTimerId s)\<rparr>"
  using assms by (simp add: onend_def service_inv_def setTimeout_def)

lemma run_restart_timer:
  assumes "service_inv s" and "isTranscribing s"
  shows "run_timer (nextTimerId s) frame now throws (onend s)
         = (s\<lparr>nextTimerId := Suc (nextTimerId s),
              recognitionCalls := recognitionCalls s @ [RecStart],
              console := console s @ (if throws then [(Warn, ''Could not restart:'')] else [])\<rparr>)"
proof -
  from assms have ids: "\<forall>t \<in> set (timers s). timerId t < nextTimerId s"
    by (simp add: service_inv_def)
  from assms obtain r where rec: "recognition s = Some r"
    by (auto simp: service_inv_def)
  show ?thesis
    using assms(2) rec
    by (simp add: onend_transcribing[OF assms] run_timer_def find_new_timer[OF ids]
        clearTimeout_def filter_old_timers[OF ids] restart_recognition_def recognition_start_def
        console_log_def)
qed

text \<open>
  C5. In every state \<open>s\<close> that a run of the service reaches from a fresh object: when the
  transcription flag is set, the \<open>end\<close> handler sets exactly one timeout, of 100 ms, for a
  restart and calls nothing on the recognition object itself; when that timeout runs with
  the flag still set, \<open>start\<close> is called exactly once, a throw is logged as a warning,
  and no timeout is left or added; when the flag is clear, the handler changes nothing.
\<close>

theorem onend_single_restart:
  assumes "s = service_run evs (new_service cfg)"
  shows "(isTranscribing s \<longrightarrow>
            timers (onend s)
              = timers s @ [\<lparr>timerId = nextTimerId s, timerDelay = 100, timerTask = RestartRecognition\<rparr>]
            \<and> recognitionCalls (onend s) = recognitionCalls s
            \<and> recognitionCalls (run_timer (nextTimerId s) frame now throws (onend s))
                = recognitionCalls s @ [RecStart]
            \<and> timers (run_timer (nextTimerId s) frame now throws (onend s)) = timers s
            \<and> console (run_timer (nextTimerId s) frame now throws (onend s))
                = console s @ (if throws then [(Warn, ''Could not restart:'')] else []))
         \<and> (\<not> isTranscribing s \<longrightarrow> onend s = s)"
proof -
  have i: "service_inv s" unfolding assms by (rule inv_run)
  have a: "onend s = s" if "\<not> isTranscribing s"
    using that by (simp add: onend_def)
  have b: "timers (onend s) = timers s @ [\<lparr>timerId = nextTimerId s, timerDelay = 100,
              timerTask = RestartRecognition\<rparr>]
           \<and> recognitionCalls (onend s) = recognitionCalls s" if "isTranscribing s"
    by (simp add: onend_transcribing[OF i that])
  have c: "recognitionCalls (run_timer (nextTimerId s) frame now throws (onend s))
             = recognitionCalls s @ [RecStart]
           \<and> timers (run_timer (nextTimerId s) frame now throws (onend s)) = timers s
           \<and> console (run_timer (nextTimerId s) frame now throws (onend s))
               = console s @ (if throws then [(Warn, ''Could not restart:'')] else [])"
    if "isTranscribing s"
    by (simp add: run_restart_timer[OF i that])
  show ?thesis using a b c by blast
qed

lemma sample_transcribing:
  "service_run [Initialize True, StartTranscription False] (new_service sample_config)
   = (new_service sample_config)
       \<lparr>audioContext := Some 44100, analyser := Some 2048, mediaStreamSource := True,
        recognition := Some \<lparr>continuous = True, interimResults = True, lang = ''en-US''\<rparr>,
        isTranscribing := True, recognitionCalls := [RecStart]\<rparr>"
  by (simp add: service_run_def initialize_def startTranscription_def recognition_start_def
      new_service_def sample_config_def Let_def)

text \<open>
  Witness for C5: after \<open>initialize\<close> and a successful \<open>startTranscription\<close> the flag is
  set; after \<open>initialize\<close> alone it is clear.
\<close>

theorem onend_single_restart_witness:
  "(let s = service_run [Initialize True, StartTranscription False] (new_service sample_config)
    in isTranscribing s
       \<and> timers (onend s)
           = timers s @ [\<lparr>timerId = nextTimerId s, timerDelay = 100, timerTask = RestartRecognition\<rparr>]
       \<and> recognitionCalls (onend s) = recognitionCalls s
       \<and> recognitionCalls (run_timer (nextTimerId s) [] 0 True (onend s))
           = recognitionCalls s @ [RecStart]
       \<and> timers (run_timer (nextTimerId s) [] 0 True (onend s)) = timers s
       \<and> console (run_timer (nextTimerId s) [] 0 True (onend s))
           = console s @ [(Warn, ''Could not restart:'')])
   \<and> (let s = service_run [Initialize True] (new_service sample_config)
      in \<not> isTranscribing s \<and> onend s = s)"
proof -
  define s where "s = service_run [Initialize True, StartTranscription False] (new_service sample_config)"
  define s' where "s' = service_run [Initialize True] (new_service sample_config)"
  have h: "isTranscribing s"
    unfolding s_def by (simp add: sample_transcribing)
  have h': "\<not> isTranscribing s'"
    unfolding s'_def by (simp add: service_run_def initialize_def new_service_def Let_def)
  from onend_single_restart[OF s_def, of "[]" 0 True] h
  have c: "timers (onend s)
           = timers s @ [\<lparr>timerId = nextTimerId s, timerDelay = 100, timerTask = RestartRecognition\<rparr>]
       \<and> recognitionCalls (onend s) = recognitionCalls s
       \<and> recognitionCalls (run_timer (nextTimerId s) [] 0 True (onend s))
           = recognitionCalls s @ [RecStart]
       \<and> timers (run_timer (nextTimerId s) [] 0 True (onend s)) = timers s
       \<and> console (run_timer (nextTimerId s) [] 0 True (onend s))
           = console s @ [(Warn, ''Could not restart:'')]"
    by simp
  from onend_single_restart[OF s'_def, of "[]" 0 True] h'
  have c': "onend s' = s'" by blast
  show ?thesis
    unfolding Let_def using h c h' c' unfolding s_def s'_def by blast
qed

text \<open>
  C9, amended. When \<open>startTranscription\<close> is called with a recognition object and the flag
  clear, and \<open>start\<close> throws: the call returns normally, the flag is clear afterwards, the
  error is written to the console with \<open>console.error\<close>, \<open>start\<close> has been called once
  and no timeout has been set, so nothing retries.
\<close>

theorem startTranscription_failure:
  assumes "recognition s \<noteq> None" and "\<not> isTranscribing s"
  shows "fst (startTranscription True s) = None
         \<and> isTranscribing (snd (startTranscription True s)) = False
         \<and> console (snd (startTranscription True s))
             = console s @ [(Error, ''Could not start recognition:'')]
         \<and> recognitionCalls (snd (startTranscription True s)) = recognitionCalls s @ [RecStart]
         \<and> timers (snd (startTranscription True s)) = timers s"
  using assms
  by (simp add: startTranscription_def recognition_start_def console_log_def)

text \<open>Witness for C9: a service right after \<open>initialize\<close>.\<close>

theorem startTranscription_failure_witness:
  "recognition (initialize True (new_service sample_config)) \<noteq> None
   \<and> \<not> isTranscribing (initialize True (new_service sample_config))
   \<and> fst (startTranscription True (initialize True (new_service sample_config))) = None
   \<and> isTranscribing (snd (startTranscription True (initialize True (new_service sample_config)))) = False
   \<and> console (snd (startTranscription True (initialize True (new_service sample_config))))
       = [(Error, ''Could not start recognition:'')]
   \<and> recognitionCalls (snd (startTranscription True (initialize True (new_service sample_config))))
       = [RecStart]
   \<and> timers (snd (startTranscription True (initialize True (new_service sample_config)))) = []"
proof -
  have r: "recognition (initialize True (new_service sample_config)) \<noteq> None"
    by (simp add: initialize_def new_service_def Let_def)
  have t: "\<not> isTranscribing (initialize True (new_service sample_config))"
    by (simp add: initialize_def new_service_def Let_def)
  have c: "console (initialize True (new_service sample_config)) = []"
    "recognitionCalls (initialize True (new_service sample_config)) = []"
    "timers (initialize True (new_service sample_config)) = []"
    by (simp_all add: initialize_def new_service_def Let_def)
  from startTranscription_failure[OF r t] r t c show ?thesis by simp
qed

text \<open>
  C9, as the specification states it, fails: the error does not reach the caller. The call
  returns normally, and the hook's \<open>startListening\<close>, which made the call, reports no
  error and sets its listening flag although the service is not transcribing.
\<close>

theorem startTranscription_failure_counterexample:
  "fst (startTranscription True (initialize True (new_service sample_config))) = None
   \<and> error (hook_startListening silent_frame 0 True sample_hook) = None
   \<and> isListening (hook_startListening silent_frame 0 True sample_hook)
   \<and> map_option isTranscribing (voiceServiceRef (hook_startListening silent_frame 0 True sample_hook))
       = Some False"
  by (simp add: startTranscription_def recognition_start_def console_log_def initialize_def
      new_service_def Let_def hook_startListening_def sample_hook_def startListening_def
      runAnalysisLoop_def setTimeout_def onTranscription_def onVoiceEmotion_def setLanguage_def
      split: prod.splits)

section \<open>Properties of the hook\<close>

lemma dropWhile_idem: "dropWhile P (dropWhile P xs) = dropWhile P xs"
  by (induction xs) auto

lemma rev_dropWhile_rev_prefix:
  "\<exists>zs. xs = rev (dropWhile P (rev xs)) @ zs"
  by (metis append_Nil2 rev_append rev_rev_ident takeWhile_dropWhile_id rev.simps(1))

lemma dropWhile_trimmed_end:
  assumes "xs = [] \<or> \<not> P (hd xs)"
  shows "dropWhile P (rev (dropWhile P (rev xs))) = rev (dropWhile P (rev xs))"
proof (cases "rev (dropWhile P (rev xs)) = []")
  case True
  show ?thesis unfolding True by simp
next
  case False
  obtain zs where zs: "xs = rev (dropWhile P (rev xs)) @ zs"
    using rev_dropWhile_rev_prefix by blast
  from False zs have "hd (rev (dropWhile P (rev xs))) = hd xs"
    by (metis hd_append2)
  moreover from False zs have "xs \<noteq> []" by auto
  ultimately have "\<not> P (hd (rev (dropWhile P (rev xs))))"
    using assms by simp
  then show ?thesis by (simp add: dropWhile_eq_self_iff)
qed

lemma trim_idem: "trim (trim s) = trim s"
proof -
  have h: "dropWhile is_ws s = [] \<or> \<not> is_ws (hd (dropWhile is_ws s))"
    by (metis hd_dropWhile)
  show ?thesis
    unfolding trim_def
    by (simp add: dropWhile_trimmed_end[of "dropWhile is_ws s" is_ws, OF h] dropWhile_idem)
qed

text \<open>
  C4. A segment that is final and whose trimmed text is not empty makes the transcription
  callback send exactly one message: one user message with the trimmed text is appended, one
  request with the trimmed text goes to the chat function, and the transcript in progress
  is empty afterwards. Any other segment appends no message and sends no request.
\<close>

theorem final_transcript_sends_once:
  "(isFinal r \<and> trim (t_text r) \<noteq> [] \<longrightarrow>
      (\<exists>m q. messages (handleTranscription cl newId now r h) = messages h @ [m]
             \<and> role m = User \<and> content m = trim (t_text r)
             \<and> requests (handleTranscription cl newId now r h) = requests h @ [q]
             \<and> req_message q = trim (t_text r))
      \<and> currentTranscript (handleTranscription cl newId now r h) = [])
   \<and> (\<not> (isFinal r \<and> trim (t_text r) \<noteq> []) \<longrightarrow>
        messages (handleTranscription cl newId now r h) = messages h
        \<and> requests (handleTranscription cl newId now r h) = requests h)"
  by (simp add: handleTranscription_def sendMessage_def trim_idem Let_def)

lemma trim_hello: "trim ''hello'' = ''hello''"
  by (simp add: trim_def is_ws_def)

text \<open>Witness for C4: the final segment "hello".\<close>

theorem final_transcript_sends_once_witness:
  "isFinal hello_segment \<and> trim (t_text hello_segment) = ''hello''
   \<and> (\<exists>m q. messages (handleTranscription sample_closure ''msg_1'' 0 hello_segment sample_hook)
               = messages sample_hook @ [m]
            \<and> role m = User \<and> content m = ''hello''
            \<and> requests (handleTranscription sample_closure ''msg_1'' 0 hello_segment sample_hook)
               = requests sample_hook @ [q]
            \<and> req_message q = ''hello'')
   \<and> currentTranscript (handleTranscription sample_closure ''msg_1'' 0 hello_segment sample_hook) = []"
proof -
  have f: "isFinal hello_segment" by (simp add: hello_segment_def)
  have t: "trim (t_text hello_segment) = ''hello''" by (simp add: hello_segment_def trim_hello)
  then have n: "trim (t_text hello_segment) \<noteq> []" by simp
  from final_transcript_sends_once[of hello_segment sample_closure "''msg_1''" 0 sample_hook] f n
  have "(\<exists>m q. messages (handleTranscription sample_closure ''msg_1'' 0 hello_segment sample_hook)
               = messages sample_hook @ [m]
            \<and> role m = User \<and> content m = trim (t_text hello_segment)
            \<and> requests (handleTranscription sample_closure ''msg_1'' 0 hello_segment sample_hook)
               = requests sample_hook @ [q]
            \<and> req_message q = trim (t_text hello_segment))
        \<and> currentTranscript (handleTranscription sample_closure ''msg_1'' 0 hello_segment sample_hook) = []"
    by blast
  with f t show ?thesis by simp
qed

lemma control_step_flags:
  "isInitialized (control_step c h) = isInitialized h"
  "is_listening_control c \<Longrightarrow> isFaceDetectionActive (control_step c h) = isFaceDetectionActive h"
  "\<not> is_listening_control c \<Longrightarrow> isListening (control_step c h) = isListening h"
  by (cases c; simp add: hook_startListening_def hook_stopListening_def startFaceDetection_def
      stopFaceDetection_def)+

lemma control_step_face_cong:
  assumes "isInitialized h = isInitialized h'"
    and "isFaceDetectionActive h = isFaceDetectionActive h'"
  shows "isFaceDetectionActive (control_step c h) = isFaceDetectionActive (control_step c h')"
  using assms
  by (cases c; simp add: hook_startListening_def hook_stopListening_def startFaceDetection_def
      stopFaceDetection_def)

lemma control_step_listening_cong:
  assumes "isInitialized h = isInitialized h'"
    and "isListening h = isListening h'"
  shows "isListening (control_step c h) = isListening (control_step c h')"
  using assms
  by (cases c; simp add: hook_startListening_def hook_stopListening_def startFaceDetection_def
      stopFaceDetection_def)

lemma face_flag_projection:
  assumes "isInitialized h = isInitialized h'"
    and "isFaceDetectionActive h = isFaceDetectionActive h'"
  shows "isFaceDetectionActive (fold control_step cs h)
         = isFaceDetectionActive (fold control_step (filter (\<lambda>c. \<not> is_listening_control c) cs) h')"
  using assms
proof (induction cs arbitrary: h h')
  case Nil
  then show ?case by simp
next
  case (Cons c cs)
  show ?case
  proof (cases "is_listening_control c")
    case True
    have "isFaceDetectionActive (fold control_step cs (control_step c h))
          = isFaceDetectionActive (fold control_step (filter (\<lambda>c. \<not> is_listening_control c) cs) h')"
      by (rule Cons.IH) (simp_all add: control_step_flags True Cons.prems)
    with True show ?thesis by simp
  next
    case False
    have "isFaceDetectionActive (fold control_step cs (control_step c h))
          = isFaceDetectionActive
              (fold control_step (filter (\<lambda>c. \<not> is_listening_control c) cs) (control_step c h'))"
      by (rule Cons.IH)
        (simp_all add: control_step_flags Cons.prems(1) control_step_face_cong[OF Cons.prems])
    with False show ?thesis by simp
  qed
qed

lemma listening_flag_projection:
  assumes "isInitialized h = isInitialized h'"
    and "isListening h = isListening h'"
  shows "isListening (fold control_step cs h)
         = isListening (fold control_step (filter is_listening_control cs) h')"
  using assms
proof (induction cs arbitrary: h h')
  case Nil
  then show ?case by simp
next
  case (Cons c cs)
  show ?case
  proof (cases "is_listening_control c")
    case False
    have "isListening (fold control_step cs (control_step c h))
          = isListening (fold control_step (filter is_listening_control cs) h')"
      by (rule Cons.IH) (simp_all add: control_step_flags False Cons.prems)
    with False show ?thesis by simp
  next
    case True
    have "isListening (fold control_step cs (control_step c h))
          = isListening (fold control_step (filter is_listening_control cs) (control_step c h'))"
      by (rule Cons.IH)
        (simp_all add: control_step_flags Cons.prems(1) control_step_listening_cong[OF Cons.prems])
    with True show ?thesis by simp
  qed
qed

text \<open>
  C6. \<open>startListening\<close> and \<open>stopListening\<close> leave \<open>isFaceDetectionActive\<close> as it is,
  \<open>startFaceDetection\<close> and \<open>stopFaceDetection\<close> leave \<open>isListening\<close> as it is, in
  every state of the hook; and after any sequence of the four calls each flag is what the
  calls of its own pair alone would have made it.
\<close>

theorem controls_independent:
  "isFaceDetectionActive (hook_startListening frame now throws h) = isFaceDetectionActive h
   \<and> isFaceDetectionActive (hook_stopListening h) = isFaceDetectionActive h
   \<and> isListening (startFaceDetection modelsLoad h) = isListening h
   \<and> isListening (stopFaceDetection h) = isListening h
   \<and> isFaceDetectionActive (fold control_step cs h)
       = isFaceDetectionActive (fold control_step (filter (\<lambda>c. \<not> is_listening_control c) cs) h)
   \<and> isListening (fold control_step cs h)
       = isListening (fold control_step (filter is_listening_control cs) h)"
  using face_flag_projection[of h h cs] listening_flag_projection[of h h cs]
  by (simp add: hook_startListening_def hook_stopListening_def startFaceDetection_def
      stopFaceDetection_def)

end
